theory Spec2Isabelle
  imports Main "HOL-Library.Multiset" "HOL-Library.Word"
begin

section \<open>Buffers and scheduling queues of the Fn API runner (execution.py)\<close>

subsection \<open>Bytes, errors and the coder capability\<close>

type_synonym byte = "8 word"
type_synonym bytes = "byte list"

text \<open>
  The exceptions the modelled code raises.  \<open>RuntimeError\<close> carries the message of the
  source; \<open>CoderError\<close> stands for whatever a pluggable coder or trigger driver raises.
\<close>

datatype error =
    RuntimeError string
  | AssertionError
  | ZeroDivisionError
  | IndexError
  | KeyError
  | ValueError
  | NotImplementedError
  | CoderError

text \<open>
  The coder library is an external collaborator.  What the buffers need from a
  \<open>CoderImpl\<close>: \<open>decode_from_stream(stream, True)\<close> reads one value from the front
  of the unread part of an input stream and leaves the rest unread (or raises), and
  \<open>encode_to_stream(value, out, True)\<close> appends the encoding of a value to an output
  stream (or raises).  An input stream is modelled by its unread bytes, so that
  \<open>input_stream.size() > 0\<close> is \<open>stream \<noteq> []\<close>.
\<close>

record 'v CoderImpl =
  decode_from_stream :: "bytes \<Rightarrow> error + ('v \<times> bytes)"
  encode_to_stream :: "'v \<Rightarrow> error + bytes"

text \<open>Python truthiness of an \<open>Optional[List[...]]\<close>: neither \<open>None\<close> nor empty.\<close>

fun truthy :: "'a list option \<Rightarrow> bool" where
  "truthy None = False"
| "truthy (Some xs) = (xs \<noteq> [])"

subsection \<open>ListBuffer\<close>

record 'v ListBuffer =
  coder_impl :: "'v CoderImpl"
  inputs :: "bytes list"
  grouped_output :: "bytes list list option"
  cleared :: bool

definition ListBuffer_init :: "'v CoderImpl \<Rightarrow> 'v ListBuffer" where
  "ListBuffer_init c =
     \<lparr>coder_impl = c, inputs = [], grouped_output = None, cleared = False\<rparr>"

definition copy_LB :: "'v ListBuffer \<Rightarrow> 'v ListBuffer" where
  "copy_LB b = (ListBuffer_init (coder_impl b))\<lparr>inputs := inputs b\<rparr>"

definition append_LB :: "bytes \<Rightarrow> 'v ListBuffer \<Rightarrow> error + 'v ListBuffer" where
  "append_LB element b =
     (if cleared b then Inl (RuntimeError ''Trying to append to a cleared ListBuffer.'')
      else if truthy (grouped_output b) then Inl (RuntimeError ''ListBuffer append after read.'')
      else Inr (b\<lparr>inputs := inputs b @ [element]\<rparr>))"

text \<open>
  \<open>extend\<close> takes any buffer; \<open>extra\<close> is \<open>Some\<close> of the other ListBuffer, or \<open>None\<close>
  when the argument is not a ListBuffer (the \<open>assert isinstance\<close> then fails).
\<close>

definition extend_LB :: "'v ListBuffer option \<Rightarrow> 'v ListBuffer \<Rightarrow> error + 'v ListBuffer" where
  "extend_LB extra b =
     (if cleared b then Inl (RuntimeError ''Trying to append to a cleared ListBuffer.'')
      else if truthy (grouped_output b) then Inl (RuntimeError ''ListBuffer append after read.'')
      else (case extra of
              None \<Rightarrow> Inl AssertionError
            | Some other \<Rightarrow> Inr (b\<lparr>inputs := inputs b @ inputs other\<rparr>)))"

text \<open>The slice \<open>xs[k::n]\<close> for \<open>n \<ge> 1\<close>: the elements at \<open>range(k, len(xs), n)\<close>.\<close>

definition slice_step :: "nat \<Rightarrow> nat \<Rightarrow> 'a list \<Rightarrow> 'a list" where
  "slice_step k n xs =
     map (\<lambda>i. xs ! i) (filter (\<lambda>i. k \<le> i \<and> (i - k) mod n = 0) [0..<length xs])"

text \<open>
  The inner \<open>while input_stream.size() > 0\<close> loop of \<open>partition\<close>: decode one value,
  re-encode it onto output stream \<open>idx\<close>, advance \<open>idx\<close> round-robin.  A decoder that
  consumes nothing keeps the loop running forever, which is the value \<open>None\<close>.
\<close>

partial_function (option) decode_loop ::
  "'v CoderImpl \<Rightarrow> nat \<Rightarrow> bytes \<Rightarrow> bytes list \<Rightarrow> nat \<Rightarrow> (error + (bytes list \<times> nat)) option"
where
  "decode_loop c n stream outs idx =
     (if stream \<noteq> [] then
        (case decode_from_stream c stream of
           Inl e \<Rightarrow> Some (Inl e)
         | Inr (decoded_value, rest) \<Rightarrow>
             (case encode_to_stream c decoded_value of
                Inl e \<Rightarrow> Some (Inl e)
              | Inr enc \<Rightarrow>
                  decode_loop c n rest (outs[idx := outs ! idx @ enc]) ((idx + 1) mod n)))
      else Some (Inr (outs, idx)))"

text \<open>The outer \<open>for input in self._inputs\<close> loop.\<close>

fun redistribute ::
  "'v CoderImpl \<Rightarrow> nat \<Rightarrow> bytes list \<Rightarrow> bytes list \<Rightarrow> nat \<Rightarrow> (error + (bytes list \<times> nat)) option"
where
  "redistribute c n [] outs idx = Some (Inr (outs, idx))"
| "redistribute c n (inp # remaining) outs idx =
     (case decode_loop c n inp outs idx of
        None \<Rightarrow> None
      | Some (Inl e) \<Rightarrow> Some (Inl e)
      | Some (Inr (outs', idx')) \<Rightarrow> redistribute c n remaining outs' idx')"

text \<open>
  \<open>partition(n)\<close> returns the shards (or the exception raised) together with the buffer
  as the call leaves it; \<open>None\<close> is a call that never returns.  The last branch returns
  the memoized shards: a truthy \<open>_grouped_output\<close> is not \<open>None\<close>.
\<close>

definition partition_LB ::
  "int \<Rightarrow> 'v ListBuffer \<Rightarrow> ((error + bytes list list) \<times> 'v ListBuffer) option" where
  "partition_LB n b =
     (if cleared b then Some (Inl (RuntimeError ''Trying to partition a cleared ListBuffer.''), b)
      else if int (length (inputs b)) \<ge> n \<or> length (inputs b) = 0 then
        Some (Inr (map (\<lambda>k. slice_step k (nat n) (inputs b)) [0..<nat n]), b)
      else if \<not> truthy (grouped_output b) then
        (case redistribute (coder_impl b) (nat n) (inputs b) (replicate (nat n) []) 0 of
           None \<Rightarrow> None
         | Some (Inl e) \<Rightarrow> Some (Inl e, b)
         | Some (Inr (output_stream_list, idx)) \<Rightarrow>
             Some (Inr (map (\<lambda>s. [s]) output_stream_list),
                   b\<lparr>grouped_output := Some (map (\<lambda>s. [s]) output_stream_list)\<rparr>))
      else (case grouped_output b of
              Some g \<Rightarrow> Some (Inr g, b)
            | None \<Rightarrow> Some (Inr [], b)))"

definition iter_LB :: "'v ListBuffer \<Rightarrow> error + bytes list" where
  "iter_LB b =
     (if cleared b then Inl (RuntimeError ''Trying to iterate through a cleared ListBuffer.'')
      else Inr (inputs b))"

definition clear_LB :: "'v ListBuffer \<Rightarrow> 'v ListBuffer" where
  "clear_LB b = b\<lparr>cleared := True, inputs := [], grouped_output := None\<rparr>"

definition reset_LB :: "'v ListBuffer \<Rightarrow> error + 'v ListBuffer" where
  "reset_LB b =
     (if \<not> cleared b then Inl (RuntimeError ''Trying to reset a non-cleared ListBuffer.'')
      else Inr (b\<lparr>cleared := False\<rparr>))"

text \<open>
  A concrete coder for examples: a value is one byte, encoded as itself; decoding an
  exhausted stream raises.
\<close>

definition byte_coder :: "byte CoderImpl" where
  "byte_coder =
     \<lparr>decode_from_stream = (\<lambda>s. case s of [] \<Rightarrow> Inl CoderError | x # rest \<Rightarrow> Inr (x, rest)),
      encode_to_stream = (\<lambda>v. Inr [v])\<rparr>"


text \<open>
  The invariant of \<open>_grouped_output\<close>: when it holds shards, they are what the redistribution
  of the present records over that many output streams gives, and there are more shards
  than records.  It holds of a new buffer and every method keeps it.
\<close>

definition memo_of_inputs :: "'v ListBuffer \<Rightarrow> bool" where
  "memo_of_inputs b =
     (case grouped_output b of
        None \<Rightarrow> True
      | Some g \<Rightarrow>
          g = [] \<or>
          (inputs b \<noteq> [] \<and> length (inputs b) < length g \<and>
           (case redistribute (coder_impl b) (length g) (inputs b) (replicate (length g) []) 0 of
              Some (Inr (outs, idx)) \<Rightarrow> g = map (\<lambda>s. [s]) outs
            | _ \<Rightarrow> False)))"

subsection \<open>GroupingBuffer\<close>

text \<open>
  A windowed value: the value and everything else it carries (timestamp, windows, pane
  info), which \<open>with_value\<close> keeps.
\<close>

datatype ('a, 'w) WindowedValue = WindowedValue (wv_value: 'a) (wv_meta: 'w)

definition with_value :: "('a, 'w) WindowedValue \<Rightarrow> 'b \<Rightarrow> ('b, 'w) WindowedValue" where
  "with_value wv v = WindowedValue v (wv_meta wv)"

text \<open>An entry of the key table: the bare value under default windowing, else the windowed value.\<close>

datatype ('v, 'w) table_value = Plain 'v | InWindow "('v, 'w) WindowedValue"

text \<open>
  The constructor arguments are kept as the capabilities the methods use: the decoder of
  the pre-grouped coder, the key coder, the encoder of the post-grouped coder, whether the
  windowing is the default one, the global-window wrapper of \<open>partition\<close>, and the trigger
  driver (whose creation may itself raise).  \<open>'g\<close> is the type of a grouped, windowed
  key/values element.  \<open>gb_table\<close> is the insertion-ordered \<open>_table\<close>.
\<close>

record ('k, 'v, 'w, 'g) GroupingBuffer =
  pre_grouped_decode :: "bytes \<Rightarrow> error + (('k \<times> 'v, 'w) WindowedValue \<times> bytes)"
  key_encode :: "'k \<Rightarrow> error + bytes"
  key_decode :: "bytes \<Rightarrow> error + 'k"
  post_grouped_encode :: "'g \<Rightarrow> error + bytes"
  windowing_is_default :: bool
  globally_window :: "'k \<Rightarrow> ('v, 'w) table_value list \<Rightarrow> 'g"
  trigger_driver :: "error + ('k \<Rightarrow> ('v, 'w) table_value list \<Rightarrow> error + 'g list)"
  gb_table :: "(bytes \<times> ('v, 'w) table_value list) list"
  gb_grouped_output :: "bytes list list option"

text \<open>\<open>self._table[key].extend(values)\<close> on a \<open>defaultdict(list)\<close>.\<close>

fun table_extend :: "bytes \<Rightarrow> 'a list \<Rightarrow> (bytes \<times> 'a list) list \<Rightarrow> (bytes \<times> 'a list) list" where
  "table_extend key vals [] = [(key, vals)]"
| "table_extend key vals ((k, vs) # t) =
     (if k = key then (k, vs @ vals) # t else (k, vs) # table_extend key vals t)"

text \<open>
  The decoding loop of \<open>append\<close>.  The result is the exception raised, if any, and the
  buffer as the call leaves it; \<open>None\<close> is a loop that never ends.
\<close>

partial_function (option) append_loop ::
  "('k, 'v, 'w, 'g) GroupingBuffer \<Rightarrow> bytes \<Rightarrow> (error option \<times> ('k, 'v, 'w, 'g) GroupingBuffer) option"
where
  "append_loop b stream =
     (if stream \<noteq> [] then
        (case pre_grouped_decode b stream of
           Inl e \<Rightarrow> Some (Some e, b)
         | Inr (windowed_key_value, rest) \<Rightarrow>
             (case wv_value windowed_key_value of
                (key, val) \<Rightarrow>
                  (case key_encode b key of
                     Inl e \<Rightarrow> Some (Some e, b)
                   | Inr encoded_key \<Rightarrow>
                       append_loop
                         (b\<lparr>gb_table :=
                              table_extend encoded_key
                                [if windowing_is_default b then Plain val
                                 else InWindow (with_value windowed_key_value val)]
                                (gb_table b)\<rparr>)
                         rest)))
      else Some (None, b))"

definition append_GB ::
  "bytes \<Rightarrow> ('k, 'v, 'w, 'g) GroupingBuffer \<Rightarrow> (error option \<times> ('k, 'v, 'w, 'g) GroupingBuffer) option"
where
  "append_GB elements_data b =
     (if truthy (gb_grouped_output b)
      then Some (Some (RuntimeError ''Grouping table append after read.''), b)
      else append_loop b elements_data)"

text \<open>The argument of \<open>extend\<close>: a ListBuffer, a GroupingBuffer, or anything else.\<close>

datatype ('lb, 'gb) Buffer = IsListBuffer 'lb | IsGroupingBuffer 'gb | IsOtherBuffer

definition extend_GB ::
  "('lb, ('k, 'v, 'w, 'g) GroupingBuffer) Buffer \<Rightarrow> ('k, 'v, 'w, 'g) GroupingBuffer
     \<Rightarrow> error option \<times> ('k, 'v, 'w, 'g) GroupingBuffer"
where
  "extend_GB input_buffer b =
     (case input_buffer of
        IsListBuffer _ \<Rightarrow> (None, b)
      | IsOtherBuffer \<Rightarrow> (Some AssertionError, b)
      | IsGroupingBuffer other \<Rightarrow>
          (None, b\<lparr>gb_table :=
                      fold (\<lambda>(key, vals) t. table_extend key vals t) (gb_table other) (gb_table b)\<rparr>))"

text \<open>
  \<open>output_stream_list[idx % n]\<close>, the list having \<open>max n 0\<close> entries: division by zero
  for \<open>n = 0\<close>, and for a negative \<open>n\<close> any index into the empty list is out of range.
\<close>

definition select_stream :: "int \<Rightarrow> nat \<Rightarrow> error + nat" where
  "select_stream n idx =
     (if n = 0 then Inl ZeroDivisionError
      else if n < 0 then Inl IndexError
      else Inr (idx mod nat n))"

text \<open>The loop \<open>for wkvs in windowed_key_values(key, windowed_values)\<close>.\<close>

fun encode_all ::
  "('g \<Rightarrow> error + bytes) \<Rightarrow> int \<Rightarrow> nat \<Rightarrow> 'g list \<Rightarrow> bytes list \<Rightarrow> error + bytes list" where
  "encode_all enc n idx [] outs = Inr outs"
| "encode_all enc n idx (wkvs # rest) outs =
     (case select_stream n idx of
        Inl e \<Rightarrow> Inl e
      | Inr j \<Rightarrow>
          (case enc wkvs of
             Inl e \<Rightarrow> Inl e
           | Inr bs \<Rightarrow> encode_all enc n idx rest (outs[j := outs ! j @ bs])))"

text \<open>The loop over \<open>enumerate(self._table.items())\<close>.\<close>

fun group_loop ::
  "('k, 'v, 'w, 'g) GroupingBuffer \<Rightarrow> ('k \<Rightarrow> ('v, 'w) table_value list \<Rightarrow> error + 'g list)
     \<Rightarrow> int \<Rightarrow> nat \<Rightarrow> (bytes \<times> ('v, 'w) table_value list) list \<Rightarrow> bytes list
     \<Rightarrow> error + bytes list"
where
  "group_loop b windowed_key_values n idx [] outs = Inr outs"
| "group_loop b windowed_key_values n idx ((encoded_key, windowed_values) # rest) outs =
     (case key_decode b encoded_key of
        Inl e \<Rightarrow> Inl e
      | Inr key \<Rightarrow>
          (case windowed_key_values key windowed_values of
             Inl e \<Rightarrow> Inl e
           | Inr ws \<Rightarrow>
               (case encode_all (post_grouped_encode b) n idx ws outs of
                  Inl e \<Rightarrow> Inl e
                | Inr outs' \<Rightarrow> group_loop b windowed_key_values n (idx + 1) rest outs')))"

text \<open>
  \<open>partition(n)\<close>: the result (shards or exception) and the buffer as the call leaves it.
  The field \<open>_grouped_output\<close> is assigned \<open>n\<close> empty shards before the table is walked,
  and the real shards after it.
\<close>

definition partition_GB ::
  "int \<Rightarrow> ('k, 'v, 'w, 'g) GroupingBuffer
     \<Rightarrow> (error + bytes list list) \<times> ('k, 'v, 'w, 'g) GroupingBuffer"
where
  "partition_GB n b =
     (if \<not> truthy (gb_grouped_output b) then
        (case (if windowing_is_default b
               then Inr (\<lambda>key vals. Inr [globally_window b key vals])
               else trigger_driver b) of
           Inl e \<Rightarrow> (Inl e, b)
         | Inr windowed_key_values \<Rightarrow>
             (let b1 = b\<lparr>gb_grouped_output := Some (replicate (nat n) [])\<rparr> in
              case group_loop b1 windowed_key_values n 0 (gb_table b1) (replicate (nat n) []) of
                Inl e \<Rightarrow> (Inl e, b1)
              | Inr output_stream_list \<Rightarrow>
                  (Inr (map (\<lambda>s. [s]) output_stream_list),
                   b1\<lparr>gb_grouped_output := Some (map (\<lambda>s. [s]) output_stream_list),
                      gb_table := []\<rparr>)))
      else (Inr (case gb_grouped_output b of Some g \<Rightarrow> g | None \<Rightarrow> []), b))"

text \<open>\<open>__iter__\<close> is \<open>itertools.chain(*self.partition(1))\<close>.\<close>

definition iter_GB ::
  "('k, 'v, 'w, 'g) GroupingBuffer \<Rightarrow> (error + bytes list) \<times> ('k, 'v, 'w, 'g) GroupingBuffer"
where
  "iter_GB b =
     (case partition_GB 1 b of
        (Inl e, b') \<Rightarrow> (Inl e, b')
      | (Inr shards, b') \<Rightarrow> (Inr (concat shards), b'))"

text \<open>The class attribute \<open>cleared = False\<close>, and the two methods whose body is \<open>pass\<close>.\<close>

definition cleared_GB :: "('k, 'v, 'w, 'g) GroupingBuffer \<Rightarrow> bool" where
  "cleared_GB b = False"

definition clear_GB :: "('k, 'v, 'w, 'g) GroupingBuffer \<Rightarrow> ('k, 'v, 'w, 'g) GroupingBuffer" where
  "clear_GB b = b"

definition reset_GB :: "('k, 'v, 'w, 'g) GroupingBuffer \<Rightarrow> ('k, 'v, 'w, 'g) GroupingBuffer" where
  "reset_GB b = b"

text \<open>
  A concrete GroupingBuffer for examples, under default windowing: a pre-grouped element
  is two bytes (key, value), a key is encoded as itself, and a grouped element is encoded
  as the key followed by its values.  \<open>failing_encode_buffer\<close> is the same buffer with a
  post-grouped encoder that raises.
\<close>

definition example_buffer :: "(byte, byte, unit, byte \<times> byte list) GroupingBuffer" where
  "example_buffer =
     \<lparr>pre_grouped_decode =
        (\<lambda>s. case s of k # v # rest \<Rightarrow> Inr (WindowedValue (k, v) (), rest) | _ \<Rightarrow> Inl CoderError),
      key_encode = (\<lambda>k. Inr [k]),
      key_decode = (\<lambda>s. case s of [k] \<Rightarrow> Inr k | _ \<Rightarrow> Inl CoderError),
      post_grouped_encode = (\<lambda>(k, vs). Inr (k # vs)),
      windowing_is_default = True,
      globally_window = (\<lambda>k vals. (k, concat (map (\<lambda>tv. case tv of Plain v \<Rightarrow> [v] | InWindow wv \<Rightarrow> [wv_value wv]) vals))),
      trigger_driver = Inl CoderError,
      gb_table = [([1], [Plain 7])],
      gb_grouped_output = None\<rparr>"

definition failing_encode_buffer :: "(byte, byte, unit, byte \<times> byte list) GroupingBuffer" where
  "failing_encode_buffer = example_buffer\<lparr>post_grouped_encode := (\<lambda>_. Inl CoderError)\<rparr>"

subsection \<open>The scheduling queues\<close>

text \<open>
  Modelled from the spec: \<open>DataInput\<close> is declared in translations.py, which is not among
  the sources; the spec describes it as the grouped input that holds per-PCollection buffer
  fragments and per-timer-family fragments, and the code builds it as
  \<open>DataInput(data, timers)\<close> and reads \<open>.data\<close> and \<open>.timers\<close>.  Both are insertion-ordered
  dictionaries, kept as association lists with distinct keys.
\<close>

record ('p, 't, 'b) DataInput =
  di_data :: "('p \<times> 'b) list"
  di_timers :: "('t \<times> 'b) list"

text \<open>
  What \<open>enque\<close> asks of the objects it is handed: the truth value of a \<open>DataInput\<close>
  (\<open>if not incoming_inputs\<close>; it depends on the missing declaration, so it is a parameter),
  the truth value of a buffer, and the \<open>extend\<close> method of a buffer, which may raise and
  then leaves the buffer as it was.
\<close>

record ('p, 't, 'b) protocol =
  input_truthy :: "('p, 't, 'b) DataInput \<Rightarrow> bool"
  buffer_truthy :: "'b \<Rightarrow> bool"
  buffer_extend :: "'b \<Rightarrow> 'b \<Rightarrow> error + 'b"

text \<open>\<open>d[k] = v\<close> on an insertion-ordered dictionary.\<close>

fun dict_set :: "'a \<Rightarrow> 'b \<Rightarrow> ('a \<times> 'b) list \<Rightarrow> ('a \<times> 'b) list" where
  "dict_set k v [] = [(k, v)]"
| "dict_set k v ((k', v') # d) =
     (if k' = k then (k', v) # d else (k', v') # dict_set k v d)"

text \<open>
  One of the two merging loops of \<open>enque\<close>, over the entries of the incoming dictionary:
  extend the existing buffer when both sides have one, adopt the incoming buffer when only
  the incoming side has one.  The result is the exception raised, if any, and the existing
  dictionary as the loop leaves it.  Buffers are kept as values: that an adopted buffer is
  the very object the incoming input holds is not tracked.
\<close>

fun merge_buffers ::
  "('p, 't, 'b) protocol \<Rightarrow> ('a \<times> 'b) list \<Rightarrow> ('a \<times> 'b) list \<Rightarrow> error option \<times> ('a \<times> 'b) list"
where
  "merge_buffers ops [] existing = (None, existing)"
| "merge_buffers ops ((name, incoming) # rest) existing =
     (if buffer_truthy ops incoming
         \<and> (case map_of existing name of None \<Rightarrow> False | Some e \<Rightarrow> buffer_truthy ops e)
      then (case map_of existing name of
              None \<Rightarrow> (None, existing)
            | Some e \<Rightarrow>
                (case buffer_extend ops e incoming of
                   Inl err \<Rightarrow> (Some err, existing)
                 | Inr e' \<Rightarrow> merge_buffers ops rest (dict_set name e' existing)))
      else if buffer_truthy ops incoming
      then merge_buffers ops rest (dict_set name incoming existing)
      else merge_buffers ops rest existing)"

text \<open>
  A queue holds references to \<open>DataInput\<close> objects: an element is a key and the address of
  its input in the store \<open>h\<close>.  \<open>kq_q\<close> is the deque \<open>_q\<close>, its left end first;
  \<open>kq_keyed_elements\<close> is the dictionary \<open>_keyed_elements\<close>.
\<close>

record 'k KeyedQueue =
  kq_q :: "('k \<times> nat) list"
  kq_keyed_elements :: "'k \<rightharpoonup> ('k \<times> nat)"

definition KeyedQueue_init :: "'k KeyedQueue" where
  "KeyedQueue_init = \<lparr>kq_q = [], kq_keyed_elements = Map.empty\<rparr>"

definition enque ::
  "('p, 't, 'b) protocol \<Rightarrow> 'k \<times> nat \<Rightarrow> 'k KeyedQueue \<times> ('p, 't, 'b) DataInput list
     \<Rightarrow> error option \<times> ('k KeyedQueue \<times> ('p, 't, 'b) DataInput list)"
where
  "enque ops elm s =
     (case s of (kq, h) \<Rightarrow>
        (let key = fst elm; incoming_inputs = h ! snd elm in
         if \<not> input_truthy ops incoming_inputs then (None, (kq, h))
         else (case kq_keyed_elements kq key of
                 Some existing \<Rightarrow>
                   (let existing_inputs = h ! snd existing in
                    case merge_buffers ops (di_data incoming_inputs) (di_data existing_inputs) of
                      (Some err, data') \<Rightarrow>
                        (Some err, (kq, h[snd existing := existing_inputs\<lparr>di_data := data'\<rparr>]))
                    | (None, data') \<Rightarrow>
                        (case merge_buffers ops (di_timers incoming_inputs) (di_timers existing_inputs) of
                           (err, timers') \<Rightarrow>
                             (err, (kq, h[snd existing :=
                                            existing_inputs\<lparr>di_data := data', di_timers := timers'\<rparr>]))))
               | None \<Rightarrow>
                   (None, (kq\<lparr>kq_keyed_elements := (kq_keyed_elements kq)(key \<mapsto> elm),
                              kq_q := elm # kq_q kq\<rparr>, h)))))"

definition deque :: "'k KeyedQueue \<Rightarrow> (error + ('k \<times> nat)) \<times> 'k KeyedQueue" where
  "deque kq =
     (if kq_q kq = [] then (Inl IndexError, kq)
      else (let elm = last (kq_q kq); kq1 = kq\<lparr>kq_q := butlast (kq_q kq)\<rparr> in
            if kq_keyed_elements kq1 (fst elm) = None then (Inl KeyError, kq1)
            else (Inr elm, kq1\<lparr>kq_keyed_elements := (kq_keyed_elements kq1)(fst elm := None)\<rparr>)))"

definition len_KQ :: "'k KeyedQueue \<Rightarrow> nat" where
  "len_KQ kq = length (kq_q kq)"

text \<open>At most one entry per key, and the dictionary indexes exactly the entries of the deque.\<close>

definition kq_inv :: "'k KeyedQueue \<Rightarrow> bool" where
  "kq_inv kq \<longleftrightarrow>
     distinct (map fst (kq_q kq))
     \<and> (\<forall>k e. kq_keyed_elements kq k = Some e \<longleftrightarrow> e \<in> set (kq_q kq) \<and> fst e = k)"

text \<open>
  The protocol of the objects the runner builds, over ListBuffers: \<open>DataInput(data, timers)\<close>
  is a named tuple of two fields, hence always truthy, and no buffer class of execution.py
  defines a truth value or a length, so buffers are truthy too.
\<close>

definition named_tuple_protocol :: "('p, 't, byte ListBuffer) protocol" where
  "named_tuple_protocol =
     \<lparr>input_truthy = (\<lambda>_. True),
      buffer_truthy = (\<lambda>_. True),
      buffer_extend = (\<lambda>self other. extend_LB (Some other) self)\<rparr>"



subsection \<open>Seeding the queues with a stage's initial inputs\<close>

record PTransform =
  unique_name :: string
  spec_urn :: string
  spec_payload :: bytes
  pt_inputs :: "(string \<times> string) list"
  pt_outputs :: "(string \<times> string) list"

record Stage =
  stage_name :: string
  transforms :: "PTransform list"

text \<open>
  What \<open>_enqueue_stage_initial_inputs\<close> reads that is declared outside execution.py: the
  URN constants of bundle_processor and translations, the impulse buffer id and the encoded
  impulse value, the maximum timestamp, the coder tables of the context (a coder of
  \<open>pipeline_context.coders\<close> is given by its implementation), the side inputs
  of a parsed ParDo payload (\<open>parse_Bytes(...).side_inputs\<close>), and the serialized data-channel
  port that the bundle manager's worker handler yields for a coder id.
\<close>

record ('v, 'ts) ExecutionEnv =
  DATA_INPUT_URN :: string
  DATA_OUTPUT_URN :: string
  PAR_DO_URNS :: "string list"
  IMPULSE_BUFFER :: bytes
  ENCODED_IMPULSE_VALUE :: bytes
  MAX_TIMESTAMP :: 'ts
  data_channel_coders :: "(string \<times> string) list"
  safe_coders :: "(string \<times> string) list"
  context_coders :: "string \<Rightarrow> error + 'v CoderImpl"
  side_inputs_of_payload :: "bytes \<Rightarrow> error + string list"
  data_spec_payload :: "string \<Rightarrow> error + bytes"

record 'ts ProcessingQueueManager =
  time_pending_inputs :: "(string \<times> 'ts) KeyedQueue"
  watermark_pending_inputs :: "(string \<times> 'ts) KeyedQueue"
  ready_inputs :: "string KeyedQueue"

definition ProcessingQueueManager_init :: "'ts ProcessingQueueManager" where
  "ProcessingQueueManager_init =
     \<lparr>time_pending_inputs = KeyedQueue_init, watermark_pending_inputs = KeyedQueue_init,
      ready_inputs = KeyedQueue_init\<rparr>"

text \<open>\<open>only_element\<close> unpacks an iterable of exactly one element.\<close>

fun only_element :: "'a list \<Rightarrow> error + 'a" where
  "only_element [x] = Inr x"
| "only_element _ = Inl ValueError"

text \<open>
  The body of the loop for a \<open>DATA_INPUT\<close> transform: look the coder up, and for an impulse
  input put a ListBuffer holding the encoded impulse value under the transform's name.
  The result is the coder id and the new \<open>data_input\<close>.
\<close>

definition data_input_transform ::
  "('v, 'ts) ExecutionEnv \<Rightarrow> PTransform \<Rightarrow> (string \<times> 'v ListBuffer) list
     \<Rightarrow> error + (string \<times> (string \<times> 'v ListBuffer) list)"
where
  "data_input_transform env transform data_input =
     (case only_element (map snd (pt_outputs transform)) of
        Inl e \<Rightarrow> Inl e
      | Inr pcoll \<Rightarrow>
          (case map_of (data_channel_coders env) pcoll of
             None \<Rightarrow> Inl KeyError
           | Some coder_id \<Rightarrow>
               (case context_coders env
                       (case map_of (safe_coders env) coder_id of
                          None \<Rightarrow> coder_id
                        | Some safe \<Rightarrow> safe) of
                  Inl e \<Rightarrow> Inl e
                | Inr coder \<Rightarrow>
                    (if spec_payload transform = IMPULSE_BUFFER env then
                       (case append_LB (ENCODED_IMPULSE_VALUE env) (ListBuffer_init coder) of
                          Inl e \<Rightarrow> Inl e
                        | Inr buf \<Rightarrow>
                            Inr (coder_id, dict_set (unique_name transform) buf data_input))
                     else Inr (coder_id, data_input)))))"

definition data_output_transform ::
  "('v, 'ts) ExecutionEnv \<Rightarrow> PTransform \<Rightarrow> error + string" where
  "data_output_transform env transform =
     (case only_element (map snd (pt_inputs transform)) of
        Inl e \<Rightarrow> Inl e
      | Inr pcoll \<Rightarrow>
          (case map_of (data_channel_coders env) pcoll of
             None \<Rightarrow> Inl KeyError
           | Some coder_id \<Rightarrow> Inr coder_id))"

text \<open>
  The loop over \<open>stage.transforms\<close>.  It returns \<open>data_input\<close>, \<open>ready_to_schedule\<close> and
  the transforms with the payloads of the data transforms replaced, or the exception that
  ends it.
\<close>

fun initial_inputs_loop ::
  "('v, 'ts) ExecutionEnv \<Rightarrow> PTransform list \<Rightarrow> (string \<times> 'v ListBuffer) list \<Rightarrow> bool
     \<Rightarrow> error + ((string \<times> 'v ListBuffer) list \<times> bool \<times> PTransform list)"
where
  "initial_inputs_loop env [] data_input ready_to_schedule =
     Inr (data_input, ready_to_schedule, [])"
| "initial_inputs_loop env (transform # rest) data_input ready_to_schedule =
     (if spec_urn transform = DATA_INPUT_URN env \<or> spec_urn transform = DATA_OUTPUT_URN env then
        (case (if spec_urn transform = DATA_INPUT_URN env
               then data_input_transform env transform data_input
               else (case data_output_transform env transform of
                       Inl e \<Rightarrow> Inl e
                     | Inr coder_id \<Rightarrow> Inr (coder_id, data_input))) of
           Inl e \<Rightarrow> Inl e
         | Inr (coder_id, data_input') \<Rightarrow>
             (case data_spec_payload env coder_id of
                Inl e \<Rightarrow> Inl e
              | Inr payload \<Rightarrow>
                  (case initial_inputs_loop env rest data_input' ready_to_schedule of
                     Inl e \<Rightarrow> Inl e
                   | Inr (d, r, ts) \<Rightarrow> Inr (d, r, transform\<lparr>spec_payload := payload\<rparr> # ts))))
      else if spec_urn transform \<in> set (PAR_DO_URNS env) then
        (case side_inputs_of_payload env (spec_payload transform) of
           Inl e \<Rightarrow> Inl e
         | Inr side_inputs \<Rightarrow>
             (case initial_inputs_loop env rest data_input
                     (if side_inputs \<noteq> [] then False else ready_to_schedule) of
                Inl e \<Rightarrow> Inl e
              | Inr (d, r, ts) \<Rightarrow> Inr (d, r, transform # ts)))
      else (case initial_inputs_loop env rest data_input ready_to_schedule of
              Inl e \<Rightarrow> Inl e
            | Inr (d, r, ts) \<Rightarrow> Inr (d, r, transform # ts)))"

text \<open>
  \<open>_enqueue_stage_initial_inputs\<close> on the queues and the store of inputs; the new
  \<open>DataInput(data_input, {})\<close> is allocated at the end of the store.  An exception is
  returned without the state it leaves behind.
\<close>

definition enqueue_stage_initial_inputs ::
  "('v, 'ts) ExecutionEnv \<Rightarrow> (string, 't, 'v ListBuffer) protocol \<Rightarrow> Stage
     \<Rightarrow> 'ts ProcessingQueueManager \<times> (string, 't, 'v ListBuffer) DataInput list
     \<Rightarrow> error + (Stage \<times> 'ts ProcessingQueueManager \<times> (string, 't, 'v ListBuffer) DataInput list)"
where
  "enqueue_stage_initial_inputs env ops stage s =
     (case s of (queues, h) \<Rightarrow>
        (case initial_inputs_loop env (transforms stage) [] True of
           Inl e \<Rightarrow> Inl e
         | Inr (data_input, ready_to_schedule, ts) \<Rightarrow>
             (if data_input \<noteq> [] \<and> ready_to_schedule then
                (case enque ops (stage_name stage, length h)
                        (ready_inputs queues, h @ [\<lparr>di_data = data_input, di_timers = []\<rparr>]) of
                   (Some e, _) \<Rightarrow> Inl e
                 | (None, (kq, h')) \<Rightarrow>
                     Inr (stage\<lparr>transforms := ts\<rparr>, queues\<lparr>ready_inputs := kq\<rparr>, h'))
              else if data_input \<noteq> [] \<and> \<not> ready_to_schedule then
                (case enque ops ((stage_name stage, MAX_TIMESTAMP env), length h)
                        (watermark_pending_inputs queues,
                         h @ [\<lparr>di_data = data_input, di_timers = []\<rparr>]) of
                   (Some e, _) \<Rightarrow> Inl e
                 | (None, (kq, h')) \<Rightarrow>
                     Inr (stage\<lparr>transforms := ts\<rparr>, queues\<lparr>watermark_pending_inputs := kq\<rparr>, h'))
              else Inr (stage\<lparr>transforms := ts\<rparr>, queues, h))))"

text \<open>A transform that is an impulse data input; a transform that declares side inputs.\<close>

definition is_impulse_input :: "('v, 'ts) ExecutionEnv \<Rightarrow> PTransform \<Rightarrow> bool" where
  "is_impulse_input env t \<longleftrightarrow>
     spec_urn t = DATA_INPUT_URN env \<and> spec_payload t = IMPULSE_BUFFER env"

definition declares_side_inputs :: "('v, 'ts) ExecutionEnv \<Rightarrow> PTransform \<Rightarrow> bool" where
  "declares_side_inputs env t \<longleftrightarrow>
     spec_urn t \<noteq> DATA_INPUT_URN env \<and> spec_urn t \<noteq> DATA_OUTPUT_URN env
     \<and> spec_urn t \<in> set (PAR_DO_URNS env)
     \<and> (case side_inputs_of_payload env (spec_payload t) of
           Inl e \<Rightarrow> False
         | Inr side_inputs \<Rightarrow> side_inputs \<noteq> [])"

text \<open>
  A pipeline of two stages for examples: both read an impulse; the ParDo of stage A has
  no side inputs, the ParDo of stage B has one.
\<close>

definition example_env :: "(byte, int) ExecutionEnv" where
  "example_env =
     \<lparr>DATA_INPUT_URN = ''beam:runner:source:v1'',
      DATA_OUTPUT_URN = ''beam:runner:sink:v1'',
      PAR_DO_URNS = [''beam:transform:pardo:v1''],
      IMPULSE_BUFFER = [105, 109, 112, 117, 108, 115, 101],
      ENCODED_IMPULSE_VALUE = [0],
      MAX_TIMESTAMP = 9223372036854775807,
      data_channel_coders = [(''pc'', ''bytes_coder'')],
      safe_coders = [],
      context_coders = (\<lambda>_. Inr byte_coder),
      side_inputs_of_payload = (\<lambda>payload. Inr (if payload = [] then [] else [''side''])),
      data_spec_payload = (\<lambda>_. Inr [])\<rparr>"

definition impulse_read :: PTransform where
  "impulse_read =
     \<lparr>unique_name = ''read'', spec_urn = ''beam:runner:source:v1'',
      spec_payload = [105, 109, 112, 117, 108, 115, 101],
      pt_inputs = [], pt_outputs = [(''out'', ''pc'')]\<rparr>"

definition par_do :: "bytes \<Rightarrow> PTransform" where
  "par_do payload =
     \<lparr>unique_name = ''pardo'', spec_urn = ''beam:transform:pardo:v1'',
      spec_payload = payload, pt_inputs = [(''in'', ''pc'')], pt_outputs = []\<rparr>"

definition stage_A :: Stage where
  "stage_A = \<lparr>stage_name = ''A'', transforms = [impulse_read, par_do []]\<rparr>"

definition stage_B :: Stage where
  "stage_B = \<lparr>stage_name = ''B'', transforms = [impulse_read, par_do [1]]\<rparr>"

definition impulse_data_input :: "(string \<times> byte ListBuffer) list" where
  "impulse_data_input = [(''read'', (ListBuffer_init byte_coder)\<lparr>inputs := [[0]]\<rparr>)]"

subsection \<open>Safe windowing strategies\<close>

datatype MergeStatus = UNSPECIFIED | NON_MERGING | NEEDS_MERGE | ALREADY_MERGED

record WindowingStrategy =
  window_fn_urn :: string
  window_fn_payload :: bytes
  merge_status :: MergeStatus
  window_coder_id :: string

definition GenericNonMergingWindowFn_URN :: string where
  "GenericNonMergingWindowFn_URN = ''internal-generic-non-merging''"

definition GenericMergingWindowFn_URN :: string where
  "GenericMergingWindowFn_URN = ''internal-generic-merging''"

text \<open>\<open>str.encode('utf-8')\<close>: a \<open>string\<close> is already a list of bytes.\<close>

definition encode_utf8 :: "string \<Rightarrow> bytes" where
  "encode_utf8 s = map (\<lambda>c. of_nat (of_char c)) s"

text \<open>The strategy a protocol-buffer map yields for a key it does not have: every field at its default.\<close>

definition default_strategy :: WindowingStrategy where
  "default_strategy =
     \<lparr>window_fn_urn = [], window_fn_payload = [], merge_status = UNSPECIFIED,
      window_coder_id = []\<rparr>"

text \<open>
  What the canonicalizer reads that is declared elsewhere: the set \<open>SAFE_WINDOW_FNS\<close>
  (computed from the known URNs of the window library), \<open>put_proto\<close> of the pipeline
  context's registry \<open>'c\<close>, which may raise, and the hexadecimal UUIDs that \<open>uuid.uuid4()\<close>
  hands out, by the number of the draw.
\<close>

record 'c WindowingEnv =
  SAFE_WINDOW_FNS :: "string list"
  put_proto :: "string \<Rightarrow> WindowingStrategy \<Rightarrow> 'c \<Rightarrow> error + 'c"
  uuid4_hex :: "nat \<Rightarrow> string"

text \<open>
  The state the canonicalizer reads and changes: the map \<open>windowing_strategies\<close> of the
  pipeline components (reading a key it does not have inserts the default strategy), the
  registry of the pipeline context, the table \<open>GenericMergingWindowFn._HANDLES\<close> (a window
  function is kept as the strategy it was built from), and the number of UUIDs drawn.
\<close>

record 'c WindowingState =
  component_strategies :: "(string \<times> WindowingStrategy) list"
  context_strategies :: 'c
  HANDLES :: "(string \<times> WindowingStrategy) list"
  uuids_drawn :: nat

text \<open>The loop \<open>while safe_id in windowing_strategies: safe_id += '_'\<close>.\<close>

function find_safe_id :: "string list \<Rightarrow> string \<Rightarrow> string" where
  "find_safe_id ids safe_id =
     (if safe_id \<in> set ids then find_safe_id ids (safe_id @ ''_'') else safe_id)"
  by pat_completeness auto
termination
proof (relation "measure (\<lambda>(ids, safe_id). Suc (Max (insert 0 (length ` set ids))) - length safe_id)")
  show "wf (measure (\<lambda>(ids, safe_id). Suc (Max (insert 0 (length ` set ids))) - length safe_id))"
    by simp
next
  fix ids :: "string list" and safe_id :: string
  assume "safe_id \<in> set ids"
  then have "length safe_id \<le> Max (insert 0 (length ` set ids))"
    by (intro Max_ge) auto
  then show "((ids, safe_id @ ''_''), (ids, safe_id))
        \<in> measure (\<lambda>(ids, safe_id). Suc (Max (insert 0 (length ` set ids))) - length safe_id)"
    by simp
qed

declare find_safe_id.simps [simp del]

text \<open>\<open>self.pipeline_components.windowing_strategies[id]\<close>.\<close>

definition lookup_strategy ::
  "string \<Rightarrow> 'c WindowingState \<Rightarrow> WindowingStrategy \<times> 'c WindowingState" where
  "lookup_strategy ident st =
     (case map_of (component_strategies st) ident of
        Some proto \<Rightarrow> (proto, st)
      | None \<Rightarrow>
          (default_strategy,
           st\<lparr>component_strategies := component_strategies st @ [(ident, default_strategy)]\<rparr>))"

definition make_safe_windowing_strategy ::
  "'c WindowingEnv \<Rightarrow> string \<Rightarrow> 'c WindowingState \<Rightarrow> (error + string) \<times> 'c WindowingState" where
  "make_safe_windowing_strategy env ident st0 =
     (case lookup_strategy ident st0 of
        (windowing_strategy_proto, st) \<Rightarrow>
          (if window_fn_urn windowing_strategy_proto \<in> set (SAFE_WINDOW_FNS env) then (Inr ident, st)
           else
             (let safe_id = find_safe_id (map fst (component_strategies st)) (ident @ ''_safe'') in
              case merge_status windowing_strategy_proto of
                NON_MERGING \<Rightarrow>
                  (case put_proto env safe_id
                          (windowing_strategy_proto
                             \<lparr>window_fn_urn := GenericNonMergingWindowFn_URN,
                              window_fn_payload :=
                                encode_utf8 (window_coder_id windowing_strategy_proto)\<rparr>)
                          (context_strategies st) of
                     Inl e \<Rightarrow> (Inl e, st)
                   | Inr c \<Rightarrow> (Inr safe_id, st\<lparr>context_strategies := c\<rparr>))
              | NEEDS_MERGE \<Rightarrow>
                  (let handle_id = uuid4_hex env (uuids_drawn st);
                       st1 = st\<lparr>HANDLES := dict_set handle_id windowing_strategy_proto (HANDLES st),
                                uuids_drawn := uuids_drawn st + 1\<rparr>
                   in case put_proto env safe_id
                             (windowing_strategy_proto
                                \<lparr>window_fn_urn := GenericMergingWindowFn_URN,
                                 window_fn_payload := encode_utf8 handle_id\<rparr>)
                             (context_strategies st1) of
                        Inl e \<Rightarrow> (Inl e, st1)
                      | Inr c \<Rightarrow> (Inr safe_id, st1\<lparr>context_strategies := c\<rparr>))
              | _ \<Rightarrow> (Inl NotImplementedError, st))))"









section \<open>Verified properties\<close>

subsection \<open>ListBuffer: what partition returns\<close>

















lemma memo_of_inputs_init: "memo_of_inputs (ListBuffer_init c)"
  by (simp add: memo_of_inputs_def ListBuffer_init_def)

lemma memo_of_inputs_copy: "memo_of_inputs (copy_LB b)"
  by (simp add: memo_of_inputs_def copy_LB_def ListBuffer_init_def)

lemma memo_of_inputs_clear: "memo_of_inputs (clear_LB b)"
  by (simp add: memo_of_inputs_def clear_LB_def)

lemma memo_of_inputs_reset:
  "memo_of_inputs b \<Longrightarrow> reset_LB b = Inr b' \<Longrightarrow> memo_of_inputs b'"
  by (cases "grouped_output b") (auto simp: memo_of_inputs_def reset_LB_def split: if_splits)

lemma memo_of_inputs_append:
  "memo_of_inputs b \<Longrightarrow> append_LB x b = Inr b' \<Longrightarrow> memo_of_inputs b'"
  by (cases "grouped_output b") (auto simp: memo_of_inputs_def append_LB_def split: if_splits)

lemma memo_of_inputs_extend:
  "memo_of_inputs b \<Longrightarrow> extend_LB extra b = Inr b' \<Longrightarrow> memo_of_inputs b'"
  by (cases "grouped_output b")
     (auto simp: memo_of_inputs_def extend_LB_def split: if_splits option.splits)







subsection \<open>ListBuffer: the cleared-state contract\<close>

text \<open>
  Claim C8.  After \<open>clear()\<close>, each of append, extend, iteration and partition fails with
  a usage error (a RuntimeError); \<open>reset()\<close> on a buffer that is not cleared fails with a
  usage error; and \<open>clear()\<close> followed by \<open>reset()\<close> gives exactly the state of a freshly
  constructed buffer, on which append succeeds and stores the one record.
\<close>

theorem ListBuffer_clear_reset_contract:
  fixes b :: "'v ListBuffer"
  shows "(\<exists>m. append_LB x (clear_LB b) = Inl (RuntimeError m))
   \<and> (\<exists>m. extend_LB extra (clear_LB b) = Inl (RuntimeError m))
   \<and> (\<exists>m. iter_LB (clear_LB b) = Inl (RuntimeError m))
   \<and> (\<exists>m. partition_LB n (clear_LB b) = Some (Inl (RuntimeError m), clear_LB b))
   \<and> (\<not> cleared b \<longrightarrow> (\<exists>m. reset_LB b = Inl (RuntimeError m)))
   \<and> reset_LB (clear_LB b) = Inr (ListBuffer_init (coder_impl b))
   \<and> append_LB x (ListBuffer_init (coder_impl b))
       = Inr ((ListBuffer_init (coder_impl b))\<lparr>inputs := [x]\<rparr>)"
  by (simp add: append_LB_def extend_LB_def iter_LB_def partition_LB_def clear_LB_def
      reset_LB_def ListBuffer_init_def)

theorem ListBuffer_clear_reset_contract_witness:
  "\<not> cleared (ListBuffer_init byte_coder)
   \<and> (\<exists>m. reset_LB (ListBuffer_init byte_coder) = Inl (RuntimeError m))
   \<and> (\<exists>m. append_LB [1] (clear_LB (ListBuffer_init byte_coder)) = Inl (RuntimeError m))
   \<and> reset_LB (clear_LB (ListBuffer_init byte_coder)) = Inr (ListBuffer_init byte_coder)"
  using ListBuffer_clear_reset_contract [of "[1]" "ListBuffer_init byte_coder" None 1]
  by (simp add: ListBuffer_init_def)

subsection \<open>GroupingBuffer: clear and reset\<close>

text \<open>
  Claim C10.  On a GroupingBuffer \<open>clear()\<close> and \<open>reset()\<close> change nothing and the cleared
  flag is always False: the key table and the memoized partition output are as before, and
  append, extend, iteration and partition after \<open>clear()\<close> do what they do without it.
\<close>

theorem GroupingBuffer_clear_reset_noop:
  "clear_GB b = b \<and> reset_GB b = b \<and> \<not> cleared_GB b \<and> \<not> cleared_GB (clear_GB b)
   \<and> gb_table (clear_GB b) = gb_table b
   \<and> gb_grouped_output (clear_GB b) = gb_grouped_output b
   \<and> append_GB x (clear_GB b) = append_GB x b
   \<and> extend_GB other (clear_GB b) = extend_GB other b
   \<and> iter_GB (clear_GB b) = iter_GB b
   \<and> partition_GB n (clear_GB b) = partition_GB n b"
  by (simp add: clear_GB_def reset_GB_def cleared_GB_def)

subsection \<open>GroupingBuffer: partition is memoized\<close>

text \<open>The output streams keep their number through the loops.\<close>

lemma encode_all_length:
  "encode_all enc n idx ws outs = Inr outs' \<Longrightarrow> length outs' = length outs"
  by (induction enc n idx ws outs rule: encode_all.induct) (auto split: sum.splits)

lemma group_loop_length:
  "group_loop b f n idx t outs = Inr outs' \<Longrightarrow> length outs' = length outs"
  by (induction b f n idx t outs rule: group_loop.induct)
     (auto split: sum.splits dest: encode_all_length)

text \<open>
  Claim C3.  For every GroupingBuffer and every \<open>n\<close>: when \<open>partition(n)\<close> returns shards,
  a second \<open>partition(n)\<close> on the buffer it leaves returns the same shards and leaves the
  buffer as it is (for \<open>n \<ge> 1\<close> from the memoized output, the table being cleared; for
  \<open>n \<le> 0\<close> the memoized empty list is falsy and the empty table is partitioned again, with
  the same result).
\<close>

theorem partition_GB_twice:
  assumes "partition_GB n b = (Inr shards, b')"
  shows "partition_GB n b' = (Inr shards, b')"
proof (cases "truthy (gb_grouped_output b)")
  case True
  with assms show ?thesis by (auto simp: partition_GB_def)
next
  case False
  define wkv where "wkv = (if windowing_is_default b
               then Inr (\<lambda>key vals. Inr [globally_window b key vals])
               else trigger_driver b)"
  define b1 where "b1 = b\<lparr>gb_grouped_output := Some (replicate (nat n) [])\<rparr>"
  from assms False obtain f outs where
    f: "wkv = Inr f" and
    loop: "group_loop b1 f n 0 (gb_table b1) (replicate (nat n) []) = Inr outs" and
    shards: "shards = map (\<lambda>s. [s]) outs" and
    b': "b' = b1\<lparr>gb_grouped_output := Some (map (\<lambda>s. [s]) outs), gb_table := []\<rparr>"
    unfolding partition_GB_def wkv_def b1_def
    by (auto simp: Let_def split: sum.splits if_splits)
  have len: "length outs = nat n" using group_loop_length [OF loop] by simp
  show ?thesis
  proof (cases "0 < n")
    case True
    then have "truthy (gb_grouped_output b')" using len b' by auto
    then show ?thesis using b' shards by (simp add: partition_GB_def)
  next
    case False
    then have outs: "outs = []" using len by simp
    have wkv': "(if windowing_is_default b'
               then Inr (\<lambda>key vals. Inr [globally_window b' key vals])
               else trigger_driver b') = Inr f"
      using f unfolding wkv_def b' b1_def by (auto split: if_splits)
    show ?thesis
      unfolding partition_GB_def using wkv' False outs shards
      by (simp add: b' b1_def Let_def)
  qed
qed

theorem partition_GB_twice_witness:
  "partition_GB 1 example_buffer = (Inr [[[1, 7]]], example_buffer\<lparr>gb_grouped_output := Some [[[1, 7]]], gb_table := []\<rparr>)
   \<and> partition_GB 1 (example_buffer\<lparr>gb_grouped_output := Some [[[1, 7]]], gb_table := []\<rparr>)
       = (Inr [[[1, 7]]], example_buffer\<lparr>gb_grouped_output := Some [[[1, 7]]], gb_table := []\<rparr>)"
proof -
  have h: "partition_GB 1 example_buffer = (Inr [[[1, 7]]], example_buffer\<lparr>gb_grouped_output := Some [[[1, 7]]], gb_table := []\<rparr>)"
    by (simp add: partition_GB_def example_buffer_def select_stream_def Let_def)
  from partition_GB_twice [OF h] h show ?thesis by simp
qed

subsection \<open>GroupingBuffer: writes after a partition\<close>

text \<open>
  After a partition into \<open>n \<ge> 1\<close> shards, \<open>append\<close> fails with the usage error.
\<close>

lemma append_GB_after_partition_fails:
  assumes "partition_GB n b = (Inr shards, b')" and "0 < n"
  shows "append_GB x b' = Some (Some (RuntimeError ''Grouping table append after read.''), b')"
proof -
  have "truthy (gb_grouped_output b')"
    using assms
    by (auto simp: partition_GB_def Let_def split: sum.splits if_splits option.splits
        dest!: group_loop_length)
  then show ?thesis by (simp add: append_GB_def)
qed

text \<open>
  Claim C4 says that \<open>extend\<close> fails as well.  It does not: \<open>extend\<close> never looks at
  \<open>_grouped_output\<close>.  Extending a partitioned buffer from another GroupingBuffer returns
  normally, puts the other buffer's values into the cleared table, and a later partition
  still returns the memoized shards, without those values.
\<close>

theorem extend_GB_after_partition_succeeds:
  "fst (extend_GB (IsGroupingBuffer example_buffer) (snd (partition_GB 1 example_buffer))) = None
   \<and> gb_table (snd (extend_GB (IsGroupingBuffer example_buffer) (snd (partition_GB 1 example_buffer))))
       = [([1], [Plain 7])]
   \<and> fst (partition_GB 1 (snd (extend_GB (IsGroupingBuffer example_buffer) (snd (partition_GB 1 example_buffer)))))
       = Inr [[[1, 7]]]"
  by (simp add: partition_GB_def extend_GB_def example_buffer_def select_stream_def Let_def)

subsection \<open>A partition that raises\<close>

text \<open>
  A ListBuffer assigns \<open>_grouped_output\<close> only after both loops are through, so a partition
  that raises leaves the buffer as it was.
\<close>

lemma partition_LB_failure_keeps_state:
  "partition_LB n b = Some (Inl e, b') \<Longrightarrow> b' = b"
  by (auto simp: partition_LB_def split: if_splits option.splits sum.splits prod.splits)

text \<open>
  Claim C6 says the same of a GroupingBuffer.  There \<open>_grouped_output\<close> is assigned \<open>n\<close>
  empty shards before the table is walked: when the post-grouped encoder raises,
  \<open>partition(1)\<close> raises and leaves \<open>_grouped_output = [[]]\<close>, which is truthy, so that
  the next \<open>partition(1)\<close> returns one empty shard instead of the table's data, and
  \<open>append\<close> now fails with "append after read".
\<close>

theorem partition_GB_failure_leaves_empty_shards:
  "partition_GB 1 failing_encode_buffer
     = (Inl CoderError, failing_encode_buffer\<lparr>gb_grouped_output := Some [[]]\<rparr>)
   \<and> failing_encode_buffer\<lparr>gb_grouped_output := Some [[]]\<rparr> \<noteq> failing_encode_buffer
   \<and> partition_GB 1 (failing_encode_buffer\<lparr>gb_grouped_output := Some [[]]\<rparr>)
     = (Inr [[]], failing_encode_buffer\<lparr>gb_grouped_output := Some [[]]\<rparr>)
   \<and> append_GB [1, 2] (failing_encode_buffer\<lparr>gb_grouped_output := Some [[]]\<rparr>)
     = Some (Some (RuntimeError ''Grouping table append after read.''),
             failing_encode_buffer\<lparr>gb_grouped_output := Some [[]]\<rparr>)"
  by (simp add: partition_GB_def failing_encode_buffer_def example_buffer_def select_stream_def Let_def append_GB_def)

subsection \<open>The keyed queue\<close>


lemma kq_inv_lookup:
  "kq_inv kq \<Longrightarrow> e \<in> set (kq_q kq) \<Longrightarrow> kq_keyed_elements kq (fst e) = Some e"
  unfolding kq_inv_def by blast




lemma deque_preserves_inv:
  assumes "kq_inv kq"
  shows "kq_inv (snd (deque kq))"
proof (cases "kq_q kq = []")
  case True
  with assms show ?thesis by (simp add: deque_def)
next
  case False
  then obtain xs x where q: "kq_q kq = xs @ [x]" by (metis rev_exhaust)
  with assms have k: "kq_keyed_elements kq (fst x) = Some x" by (simp add: kq_inv_lookup)
  from assms q have nx: "\<forall>e \<in> set xs. fst e \<noteq> fst x" by (force simp: kq_inv_def)
  show ?thesis using assms q k nx
    by (fastforce simp: deque_def Let_def kq_inv_def)
qed






text \<open>The guard of \<open>enque\<close> is Python's truth test: a falsy input changes nothing.\<close>

lemma enque_falsy_input_noop:
  assumes "\<not> input_truthy ops (h ! snd elm)"
  shows "enque ops elm (kq, h) = (None, (kq, h))"
  using assms by (simp add: enque_def)

text \<open>
  Claim C9 says that an input that carries no data is not enqueued.  The guard does not
  test that: a \<open>DataInput\<close> whose dictionaries are both empty is still a tuple of two
  fields, which is truthy, so on the empty queue it is enqueued under its key like any
  other input and the length goes from 0 to 1.
\<close>

theorem enque_empty_input_is_enqueued:
  "enque named_tuple_protocol (''stage'', 0)
       (KeyedQueue_init, [\<lparr>di_data = [], di_timers = []\<rparr> :: (string, string \<times> string, byte ListBuffer) DataInput])
     = (None, (\<lparr>kq_q = [(''stage'', 0)], kq_keyed_elements = [''stage'' \<mapsto> (''stage'', 0)]\<rparr>,
               [\<lparr>di_data = [], di_timers = []\<rparr>]))
   \<and> len_KQ (KeyedQueue_init :: string KeyedQueue) = 0
   \<and> len_KQ (fst (snd (enque named_tuple_protocol (''stage'', 0)
       (KeyedQueue_init, [\<lparr>di_data = [], di_timers = []\<rparr> :: (string, string \<times> string, byte ListBuffer) DataInput]))))
     = 1"
  by (simp add: enque_def KeyedQueue_init_def named_tuple_protocol_def len_KQ_def Let_def)

subsection \<open>Initial inputs of a stage\<close>

text \<open>
  What the loop over the transforms computes when it completes: \<open>ready_to_schedule\<close> is
  false exactly when some transform declares side inputs, and \<open>data_input\<close> has one
  ListBuffer holding the encoded impulse value for every impulse input of the stage.
\<close>

lemma dict_set_nonempty: "dict_set k v d \<noteq> []"
  by (cases d) (auto split: if_splits)

lemma dict_set_keys: "fst ` set (dict_set k v d) = insert k (fst ` set d)"
  by (induction d) (force split: if_splits)+

lemma dict_set_values: "(n, b) \<in> set (dict_set k v d) \<Longrightarrow> b = v \<or> (n, b) \<in> set d"
  by (induction d) (auto split: if_splits)

lemma loop_step:
  assumes "initial_inputs_loop env (t # ts) d r = Inr (d', r', ts')"
  shows "\<exists>d1 ts1. initial_inputs_loop env ts d1 (r \<and> \<not> declares_side_inputs env t) = Inr (d', r', ts1)
           \<and> (if is_impulse_input env t
               then \<exists>coder. d1 = dict_set (unique_name t)
                                   ((ListBuffer_init coder)\<lparr>inputs := [ENCODED_IMPULSE_VALUE env]\<rparr>) d
               else d1 = d)"
  using assms
  by (auto simp: declares_side_inputs_def is_impulse_input_def data_input_transform_def
        append_LB_def ListBuffer_init_def
      split: if_splits sum.splits prod.splits option.splits)

lemma loop_ready:
  "initial_inputs_loop env ts d r = Inr (d', r', ts') \<Longrightarrow>
   r' = (r \<and> \<not> (\<exists>t \<in> set ts. declares_side_inputs env t))"
proof (induction ts arbitrary: d r ts')
  case Nil
  then show ?case by simp
next
  case (Cons t ts)
  from loop_step [OF Cons.prems] obtain d1 ts1 where
    "initial_inputs_loop env ts d1 (r \<and> \<not> declares_side_inputs env t) = Inr (d', r', ts1)"
    by blast
  from Cons.IH [OF this] show ?case by auto
qed

lemma loop_nonempty:
  "initial_inputs_loop env ts d r = Inr (d', r', ts') \<Longrightarrow>
   (d' \<noteq> []) = (d \<noteq> [] \<or> (\<exists>t \<in> set ts. is_impulse_input env t))"
proof (induction ts arbitrary: d r ts')
  case Nil
  then show ?case by auto
next
  case (Cons t ts)
  from loop_step [OF Cons.prems] obtain d1 ts1 where
    rec: "initial_inputs_loop env ts d1 (r \<and> \<not> declares_side_inputs env t) = Inr (d', r', ts1)"
    and d1: "if is_impulse_input env t
               then \<exists>coder. d1 = dict_set (unique_name t)
                                   ((ListBuffer_init coder)\<lparr>inputs := [ENCODED_IMPULSE_VALUE env]\<rparr>) d
               else d1 = d"
    by blast
  from d1 have "(d1 \<noteq> []) = (d \<noteq> [] \<or> is_impulse_input env t)"
    by (auto simp: dict_set_nonempty split: if_splits)
  with Cons.IH [OF rec] show ?case by auto
qed

lemma loop_entries:
  "initial_inputs_loop env ts d r = Inr (d', r', ts') \<Longrightarrow>
   fst ` set d' = fst ` set d \<union> unique_name ` {t \<in> set ts. is_impulse_input env t}
   \<and> (\<forall>(n, b) \<in> set d'. (n, b) \<in> set d
          \<or> (inputs b = [ENCODED_IMPULSE_VALUE env] \<and> grouped_output b = None \<and> \<not> cleared b))"
proof (induction ts arbitrary: d r ts')
  case Nil
  then show ?case by auto
next
  case (Cons t ts)
  from loop_step [OF Cons.prems] obtain d1 ts1 where
    rec: "initial_inputs_loop env ts d1 (r \<and> \<not> declares_side_inputs env t) = Inr (d', r', ts1)"
    and d1: "if is_impulse_input env t
               then \<exists>coder. d1 = dict_set (unique_name t)
                                   ((ListBuffer_init coder)\<lparr>inputs := [ENCODED_IMPULSE_VALUE env]\<rparr>) d
               else d1 = d"
    by blast
  have k: "fst ` set d1 = fst ` set d \<union> (if is_impulse_input env t then {unique_name t} else {})"
  proof (cases "is_impulse_input env t")
    case True
    with d1 obtain coder where "d1 = dict_set (unique_name t)
        ((ListBuffer_init coder)\<lparr>inputs := [ENCODED_IMPULSE_VALUE env]\<rparr>) d" by auto
    then show ?thesis using True by (simp add: dict_set_keys)
  next
    case False
    with d1 show ?thesis by simp
  qed
  have v: "\<forall>(n, b) \<in> set d1. (n, b) \<in> set d
          \<or> (inputs b = [ENCODED_IMPULSE_VALUE env] \<and> grouped_output b = None \<and> \<not> cleared b)"
    using d1 by (auto simp: ListBuffer_init_def split: if_splits dest!: dict_set_values)
  from Cons.IH [OF rec] have
    a: "fst ` set d' = fst ` set d1 \<union> unique_name ` {t \<in> set ts. is_impulse_input env t}"
    and b: "\<forall>(n, b) \<in> set d'. (n, b) \<in> set d1
          \<or> (inputs b = [ENCODED_IMPULSE_VALUE env] \<and> grouped_output b = None \<and> \<not> cleared b)"
    by auto
  from a k have "fst ` set d' = fst ` set d \<union> unique_name ` {t' \<in> set (t # ts). is_impulse_input env t'}"
    by auto
  moreover from b v have "\<forall>(n, b) \<in> set d'. (n, b) \<in> set d
          \<or> (inputs b = [ENCODED_IMPULSE_VALUE env] \<and> grouped_output b = None \<and> \<not> cleared b)"
    by fastforce
  ultimately show ?case by simp
qed

text \<open>
  Claim C5.  When the scan of the stage's transforms completes, for a stage that has an
  impulse data input (its \<open>data_input\<close> is then not empty): if no transform declares side
  inputs, the pair (stage name, \<open>DataInput(data_input, {})\<close>) is put on the ready queue and
  the watermark-pending queue is left alone; if some transform declares side inputs, the
  pair is put on the watermark-pending queue under the key (stage name, \<open>MAX_TIMESTAMP\<close>)
  and the ready queue is left alone.  A stage without impulse input enqueues nothing.
  (The stage's key is not yet in the queues, as at setup, and the new input is truthy.)
\<close>

theorem enqueue_stage_initial_inputs_queue:
  assumes loop: "initial_inputs_loop env (transforms stage) [] True = Inr (data_input, ready, ts)"
    and truthy: "input_truthy ops \<lparr>di_data = data_input, di_timers = []\<rparr>"
    and fresh_ready: "kq_keyed_elements (ready_inputs queues) (stage_name stage) = None"
    and fresh_pending:
      "kq_keyed_elements (watermark_pending_inputs queues) (stage_name stage, MAX_TIMESTAMP env) = None"
  shows "(data_input \<noteq> []) = (\<exists>t \<in> set (transforms stage). is_impulse_input env t)
       \<and> fst ` set data_input = unique_name ` {t \<in> set (transforms stage). is_impulse_input env t}
       \<and> (\<forall>(n, b) \<in> set data_input.
            inputs b = [ENCODED_IMPULSE_VALUE env] \<and> grouped_output b = None \<and> \<not> cleared b)
       \<and> ready = (\<not> (\<exists>t \<in> set (transforms stage). declares_side_inputs env t))
       \<and> ((\<exists>t \<in> set (transforms stage). is_impulse_input env t)
            \<and> \<not> (\<exists>t \<in> set (transforms stage). declares_side_inputs env t) \<longrightarrow>
            enqueue_stage_initial_inputs env ops stage (queues, h)
              = Inr (stage\<lparr>transforms := ts\<rparr>,
                     queues\<lparr>ready_inputs := (ready_inputs queues)
                        \<lparr>kq_keyed_elements := (kq_keyed_elements (ready_inputs queues))
                            (stage_name stage \<mapsto> (stage_name stage, length h)),
                         kq_q := (stage_name stage, length h) # kq_q (ready_inputs queues)\<rparr>\<rparr>,
                     h @ [\<lparr>di_data = data_input, di_timers = []\<rparr>]))
       \<and> ((\<exists>t \<in> set (transforms stage). is_impulse_input env t)
            \<and> (\<exists>t \<in> set (transforms stage). declares_side_inputs env t) \<longrightarrow>
            enqueue_stage_initial_inputs env ops stage (queues, h)
              = Inr (stage\<lparr>transforms := ts\<rparr>,
                     queues\<lparr>watermark_pending_inputs := (watermark_pending_inputs queues)
                        \<lparr>kq_keyed_elements := (kq_keyed_elements (watermark_pending_inputs queues))
                            ((stage_name stage, MAX_TIMESTAMP env)
                               \<mapsto> ((stage_name stage, MAX_TIMESTAMP env), length h)),
                         kq_q := ((stage_name stage, MAX_TIMESTAMP env), length h)
                                   # kq_q (watermark_pending_inputs queues)\<rparr>\<rparr>,
                     h @ [\<lparr>di_data = data_input, di_timers = []\<rparr>]))
       \<and> (\<not> (\<exists>t \<in> set (transforms stage). is_impulse_input env t) \<longrightarrow>
            enqueue_stage_initial_inputs env ops stage (queues, h)
              = Inr (stage\<lparr>transforms := ts\<rparr>, queues, h))"
proof -
  have ne: "(data_input \<noteq> []) = (\<exists>t \<in> set (transforms stage). is_impulse_input env t)"
    using loop_nonempty [OF loop] by simp
  have en: "fst ` set data_input = unique_name ` {t \<in> set (transforms stage). is_impulse_input env t}"
    and bufs: "\<forall>(n, b) \<in> set data_input.
            inputs b = [ENCODED_IMPULSE_VALUE env] \<and> grouped_output b = None \<and> \<not> cleared b"
    using loop_entries [OF loop] by auto
  have rd: "ready = (\<not> (\<exists>t \<in> set (transforms stage). declares_side_inputs env t))"
    using loop_ready [OF loop] by simp
  have a: "data_input \<noteq> [] \<and> ready \<longrightarrow>
            enqueue_stage_initial_inputs env ops stage (queues, h)
              = Inr (stage\<lparr>transforms := ts\<rparr>,
                     queues\<lparr>ready_inputs := (ready_inputs queues)
                        \<lparr>kq_keyed_elements := (kq_keyed_elements (ready_inputs queues))
                            (stage_name stage \<mapsto> (stage_name stage, length h)),
                         kq_q := (stage_name stage, length h) # kq_q (ready_inputs queues)\<rparr>\<rparr>,
                     h @ [\<lparr>di_data = data_input, di_timers = []\<rparr>])"
    using truthy fresh_ready by (simp add: enqueue_stage_initial_inputs_def loop enque_def Let_def)
  have b: "data_input \<noteq> [] \<and> \<not> ready \<longrightarrow>
            enqueue_stage_initial_inputs env ops stage (queues, h)
              = Inr (stage\<lparr>transforms := ts\<rparr>,
                     queues\<lparr>watermark_pending_inputs := (watermark_pending_inputs queues)
                        \<lparr>kq_keyed_elements := (kq_keyed_elements (watermark_pending_inputs queues))
                            ((stage_name stage, MAX_TIMESTAMP env)
                               \<mapsto> ((stage_name stage, MAX_TIMESTAMP env), length h)),
                         kq_q := ((stage_name stage, MAX_TIMESTAMP env), length h)
                                   # kq_q (watermark_pending_inputs queues)\<rparr>\<rparr>,
                     h @ [\<lparr>di_data = data_input, di_timers = []\<rparr>])"
    using truthy fresh_pending by (simp add: enqueue_stage_initial_inputs_def loop enque_def Let_def)
  have c: "data_input = [] \<longrightarrow>
            enqueue_stage_initial_inputs env ops stage (queues, h)
              = Inr (stage\<lparr>transforms := ts\<rparr>, queues, h)"
    by (simp add: enqueue_stage_initial_inputs_def loop)
  show ?thesis
    using ne en bufs rd a b c by (simp only:) blast
qed

lemma example_loops:
  "initial_inputs_loop example_env (transforms stage_A) [] True
     = Inr (impulse_data_input, True, [impulse_read\<lparr>spec_payload := []\<rparr>, par_do []])"
  "initial_inputs_loop example_env (transforms stage_B) [] True
     = Inr (impulse_data_input, False, [impulse_read\<lparr>spec_payload := []\<rparr>, par_do [1]])"
  by (simp_all add: stage_A_def stage_B_def example_env_def impulse_read_def par_do_def
      data_input_transform_def append_LB_def ListBuffer_init_def impulse_data_input_def)

lemma example_flags:
  "is_impulse_input example_env impulse_read" "\<not> is_impulse_input example_env (par_do p)"
  "\<not> declares_side_inputs example_env impulse_read"
  "declares_side_inputs example_env (par_do p) = (p \<noteq> [])"
  by (simp_all add: is_impulse_input_def declares_side_inputs_def example_env_def
      impulse_read_def par_do_def)

theorem enqueue_stage_initial_inputs_queue_witness:
  "enqueue_stage_initial_inputs example_env
       (named_tuple_protocol :: (string, string \<times> string, byte ListBuffer) protocol)
       stage_A (ProcessingQueueManager_init, [])
     = Inr (stage_A\<lparr>transforms := [impulse_read\<lparr>spec_payload := []\<rparr>, par_do []]\<rparr>,
            ProcessingQueueManager_init
              \<lparr>ready_inputs := \<lparr>kq_q = [(''A'', 0)], kq_keyed_elements = [''A'' \<mapsto> (''A'', 0)]\<rparr>\<rparr>,
            [\<lparr>di_data = impulse_data_input, di_timers = []\<rparr>])
   \<and> enqueue_stage_initial_inputs example_env
       (named_tuple_protocol :: (string, string \<times> string, byte ListBuffer) protocol)
       stage_B (ProcessingQueueManager_init, [])
     = Inr (stage_B\<lparr>transforms := [impulse_read\<lparr>spec_payload := []\<rparr>, par_do [1]]\<rparr>,
            ProcessingQueueManager_init
              \<lparr>watermark_pending_inputs :=
                 \<lparr>kq_q = [((''B'', 9223372036854775807), 0)],
                  kq_keyed_elements = [(''B'', 9223372036854775807) \<mapsto> ((''B'', 9223372036854775807), 0)]\<rparr>\<rparr>,
            [\<lparr>di_data = impulse_data_input, di_timers = []\<rparr>])"
proof -
  have t: "input_truthy (named_tuple_protocol :: (string, string \<times> string, byte ListBuffer) protocol)
             \<lparr>di_data = impulse_data_input, di_timers = []\<rparr>"
    by (simp add: named_tuple_protocol_def)
  have fa: "kq_keyed_elements (ready_inputs (ProcessingQueueManager_init :: int ProcessingQueueManager))
              (stage_name stage_A) = None"
    and fa': "kq_keyed_elements (watermark_pending_inputs (ProcessingQueueManager_init :: int ProcessingQueueManager))
              (stage_name stage_A, MAX_TIMESTAMP example_env) = None"
    and fb: "kq_keyed_elements (ready_inputs (ProcessingQueueManager_init :: int ProcessingQueueManager))
              (stage_name stage_B) = None"
    and fb': "kq_keyed_elements (watermark_pending_inputs (ProcessingQueueManager_init :: int ProcessingQueueManager))
              (stage_name stage_B, MAX_TIMESTAMP example_env) = None"
    by (simp_all add: ProcessingQueueManager_init_def KeyedQueue_init_def)
  have max: "MAX_TIMESTAMP example_env = 9223372036854775807" by (simp add: example_env_def)
  have a: ?thesis
    using enqueue_stage_initial_inputs_queue [OF example_loops(1) t fa fa', of "[]"]
          enqueue_stage_initial_inputs_queue [OF example_loops(2) t fb fb', of "[]"]
    by (simp add: example_flags stage_A_def stage_B_def ProcessingQueueManager_init_def
        KeyedQueue_init_def max)
  then show ?thesis .
qed

subsection \<open>The safe-strategy canonicalizer\<close>







text \<open>An id the components do not have: the default strategy is inserted and is not supported.\<close>

lemma make_safe_unknown_id:
  assumes "map_of (component_strategies st) ident = None" and "[] \<notin> set (SAFE_WINDOW_FNS env)"
  shows "make_safe_windowing_strategy env ident st
           = (Inl NotImplementedError,
              st\<lparr>component_strategies := component_strategies st @ [(ident, default_strategy)]\<rparr>)"
  using assms
  by (simp add: make_safe_windowing_strategy_def lookup_strategy_def default_strategy_def Let_def)






end
